theory Spec2Isabelle
  imports Main "HOL-Library.Word"
begin

section \<open>Exceptions\<close>

text \<open>
  The error codes of namespace \<open>ErrorCodes\<close> that \<open>StorageDistributed.cpp\<close> uses, and
  the three kinds of C++ exception that the catch clauses of \<open>reshardPartitions\<close> tell
  apart: a \<open>DB::Exception\<close> (message and code), any other \<open>std::exception\<close> (its
  \<open>what()\<close>), and anything else.
\<close>

datatype error_code =
    STORAGE_REQUIRES_PARAMETER
  | RESHARDING_NO_WORKER
  | RESHARDING_INVALID_PARAMETERS
  | RESHARDING_INITIATOR_CHECK_FAILED
  | NOT_IMPLEMENTED
  | LOGICAL_ERROR
  | BAD_CAST
  | OTHER_CODE nat

datatype exn =
    Exception string error_code
  | StdException string
  | UnknownException nat

section \<open>Statements and the rewriting of their target\<close>

text \<open>
  The AST classes are declared outside \<open>StorageDistributed.cpp\<close>; only the members that
  the file touches are named here. A select query has its database and table as AST
  pointers (possibly null), an insert query has them as bare strings and carries an
  optional nested select. Every other member of a query is kept, untouched, in one
  component of arbitrary type (\<open>select_clauses\<close>, \<open>insert_payload\<close>).
\<close>

datatype identifier_kind = Column | Database | Table | Format

datatype 'e node =
    ASTIdentifier string identifier_kind
  | OtherNode 'e

record 'e ASTSelectQuery =
  select_database :: "'e node option"
  select_table :: "'e node option"
  select_clauses :: 'e

record ('e, 'r) ASTInsertQuery =
  insert_database :: string
  insert_table :: string
  insert_select :: "'e ASTSelectQuery option"
  insert_payload :: 'r

datatype ('e, 'r) AST =
    SelectQuery "'e ASTSelectQuery"
  | InsertQuery "('e, 'r) ASTInsertQuery"
  | OtherQuery 'e

text \<open>
  An \<open>ASTPtr\<close> points into a store of statements: the store is a list and a pointer is an
  index in it. Allocation appends, so a live object never moves.
\<close>

type_synonym ASTPtr = nat

type_synonym ('e, 'r) heap = "('e, 'r) AST list"

definition lookup :: "('e, 'r) heap \<Rightarrow> ASTPtr \<Rightarrow> ('e, 'r) AST option" where
  "lookup h p = (if p < length h then Some (h ! p) else None)"

text \<open>
  Modelled from the spec: \<open>IAST::clone\<close> (declared with the AST classes, outside the file)
  deep-copies the statement into a fresh object. A pointer that designates no object
  gives \<open>None\<close>.
\<close>

definition clone :: "('e, 'r) heap \<Rightarrow> ASTPtr \<Rightarrow> (('e, 'r) heap \<times> ASTPtr) option" where
  "clone h p =
     (case lookup h p of
        None \<Rightarrow> None
      | Some a \<Rightarrow> Some (h @ [a], length h))"

definition bad_cast :: exn where
  "bad_cast = Exception ''Bad cast'' BAD_CAST"

definition null_pointer :: exn where
  "null_pointer = UnknownException 0"

text \<open>
  \<open>rewriteSelectQuery\<close>: clone, \<open>typeid_cast\<close> to a select query (which throws on any
  other statement), then overwrite the two pointers of the clone with fresh identifiers.
\<close>

definition rewriteSelectQuery ::
  "('e, 'r) heap \<Rightarrow> ASTPtr \<Rightarrow> string \<Rightarrow> string \<Rightarrow> exn + (('e, 'r) heap \<times> ASTPtr)" where
  "rewriteSelectQuery h query database table =
     (case clone h query of
        None \<Rightarrow> Inl null_pointer
      | Some (h', modified_query_ast) \<Rightarrow>
          (case h' ! modified_query_ast of
             SelectQuery actual_query \<Rightarrow>
               Inr (h'[modified_query_ast := SelectQuery (actual_query
                      \<lparr>select_database := Some (ASTIdentifier database Database),
                       select_table := Some (ASTIdentifier table Table)\<rparr>)],
                    modified_query_ast)
           | InsertQuery _ \<Rightarrow> Inl bad_cast
           | OtherQuery _ \<Rightarrow> Inl bad_cast))"

text \<open>
  \<open>rewriteInsertQuery\<close>: clone, \<open>typeid_cast\<close> to an insert query, overwrite the two
  names and reset the nested select to the null pointer.
\<close>

definition rewriteInsertQuery ::
  "('e, 'r) heap \<Rightarrow> ASTPtr \<Rightarrow> string \<Rightarrow> string \<Rightarrow> exn + (('e, 'r) heap \<times> ASTPtr)" where
  "rewriteInsertQuery h query database table =
     (case clone h query of
        None \<Rightarrow> Inl null_pointer
      | Some (h', modified_query_ast) \<Rightarrow>
          (case h' ! modified_query_ast of
             InsertQuery actual_query \<Rightarrow>
               Inr (h'[modified_query_ast := InsertQuery (actual_query
                      \<lparr>insert_database := database,
                       insert_table := table,
                       insert_select := None\<rparr>)],
                    modified_query_ast)
           | SelectQuery _ \<Rightarrow> Inl bad_cast
           | OtherQuery _ \<Rightarrow> Inl bad_cast))"

section \<open>The table\<close>

text \<open>
  Of the cluster the file reads two numbers, \<open>getLocalShardCount()\<close> and
  \<open>getRemoteShardCount()\<close>; of the settings it reads the members below. Counts are
  \<open>size_t\<close>, so their arithmetic is that of 64-bit words.
\<close>

record cluster =
  local_shard_count :: "64 word"
  remote_shard_count :: "64 word"

datatype subqueries_method = PUSH | PULL

record settings =
  max_parallel_replicas :: "64 word"
  distributed_group_by_no_merge :: bool
  global_subqueries_method :: subqueries_method
  max_distributed_connections :: "64 word"

text \<open>
  The members of \<open>StorageDistributed\<close>. The schema (columns, materialized and alias
  columns, defaults) is one component of arbitrary type; the sharding key expression is
  known by whether it is there; \<open>directory_monitors\<close> is a map keyed by name, kept as
  the list of its keys; \<open>engine\<close> is what \<open>getName()\<close> returns.
\<close>

record 'c storage =
  engine :: string
  name :: string
  columns :: 'c
  remote_database :: string
  remote_table :: string
  cluster :: cluster
  sharding_key_expr :: bool
  sharding_key_column_name :: string
  write_enabled :: bool
  path :: string
  directory_monitors :: "string list"

subsection \<open>Directory monitors\<close>

text \<open>
  The file system as the table sees it: the entries of a directory, each a regular file
  or a subdirectory holding some number of pending batches. Creating a directory,
  listing it and starting a monitor are taken to succeed.
\<close>

datatype entry = RegularFile | SubDirectory nat

type_synonym filesystem = "string \<rightharpoonup> (string \<times> entry) list"

fun isDirectory :: "entry \<Rightarrow> bool" where
  "isDirectory RegularFile = False"
| "isDirectory (SubDirectory pending) = True"

definition createDirectory :: "filesystem \<Rightarrow> string \<Rightarrow> filesystem" where
  "createDirectory fs p = (case fs p of None \<Rightarrow> fs(p \<mapsto> []) | Some es \<Rightarrow> fs)"

definition entries :: "filesystem \<Rightarrow> string \<Rightarrow> (string \<times> entry) list" where
  "entries fs p = (case fs p of None \<Rightarrow> [] | Some es \<Rightarrow> es)"

text \<open>\<open>emplace\<close> of a map: nothing happens when the key is there.\<close>

definition emplace :: "string \<Rightarrow> string list \<Rightarrow> string list" where
  "emplace k ks = (if k \<in> set ks then ks else ks @ [k])"

definition createDirectoryMonitor :: "string \<Rightarrow> 'c storage \<Rightarrow> 'c storage" where
  "createDirectoryMonitor nm st = st\<lparr>directory_monitors := emplace nm (directory_monitors st)\<rparr>"

fun iterate_directory :: "(string \<times> entry) list \<Rightarrow> 'c storage \<Rightarrow> 'c storage" where
  "iterate_directory [] st = st"
| "iterate_directory ((nm, e) # it) st =
     iterate_directory it (if isDirectory e then createDirectoryMonitor nm st else st)"

definition createDirectoryMonitors :: "filesystem \<Rightarrow> 'c storage \<Rightarrow> 'c storage \<times> filesystem" where
  "createDirectoryMonitors fs st =
     (if path st = [] then (st, fs)
      else (let fs' = createDirectory fs (path st)
            in (iterate_directory (entries fs' (path st)) st, fs')))"

definition requireDirectoryMonitor :: "string \<Rightarrow> 'c storage \<Rightarrow> 'c storage" where
  "requireDirectoryMonitor nm st =
     (if nm \<in> set (directory_monitors st) then st else createDirectoryMonitor nm st)"

definition shutdown :: "'c storage \<Rightarrow> 'c storage" where
  "shutdown st = st\<lparr>directory_monitors := []\<rparr>"

subsection \<open>Construction\<close>

text \<open>
  The constructor (both overloads initialise these members alike). The sharding key is
  given by its column name, \<open>None\<close> for the null pointer, and the analysis of its
  expression is taken to succeed; \<open>escapeForFileName\<close> is defined outside the file and is
  a parameter.
\<close>

definition StorageDistributed ::
  "(string \<Rightarrow> string) \<Rightarrow> filesystem \<Rightarrow> string \<Rightarrow> string \<Rightarrow> 'c \<Rightarrow> string \<Rightarrow> string \<Rightarrow> cluster \<Rightarrow>
     string option \<Rightarrow> string \<Rightarrow> 'c storage \<times> filesystem" where
  "StorageDistributed escapeForFileName fs engine' name' columns' remote_database' remote_table'
       cluster' sharding_key' data_path' =
     createDirectoryMonitors fs
       \<lparr>engine = engine',
        name = name',
        columns = columns',
        remote_database = remote_database',
        remote_table = remote_table',
        cluster = cluster',
        sharding_key_expr = (case sharding_key' of None \<Rightarrow> False | Some k \<Rightarrow> True),
        sharding_key_column_name = (case sharding_key' of None \<Rightarrow> [] | Some k \<Rightarrow> k),
        write_enabled =
          (data_path' \<noteq> [] \<and>
           (local_shard_count cluster' + remote_shard_count cluster' < 2 \<or> sharding_key' \<noteq> None)),
        path = (if data_path' = [] then [] else data_path' @ escapeForFileName name' @ ''/''),
        directory_monitors = []\<rparr>"

subsection \<open>Queries handed to the cluster proxy\<close>

text \<open>
  \<open>ClusterProxy::Query\<close> is built from a query constructor, the cluster, the statement,
  the settings and the multiplexing flag; what \<open>execute()\<close> does with them is outside the
  file and is a parameter of \<open>read\<close>, \<open>describe\<close> and \<open>reshardPartitions\<close>.
\<close>

datatype stage = FetchColumns | WithMergeableState | Complete

datatype query_constructor =
    SelectQueryConstructor stage "string list"
  | DescribeQueryConstructor
  | AlterQueryConstructor

record 'q cluster_query =
  constructor :: query_constructor
  query_cluster :: cluster
  query_ast :: 'q
  query_settings :: settings
  enable_shard_multiplexing :: bool

record query_context =
  getExternalTables :: "string list"

text \<open>
  \<open>read\<close> assigns \<open>processed_stage\<close> (an out parameter, written before anything can
  throw) and returns what \<open>execute()\<close> yields for the rewritten query.
\<close>

definition read ::
  "(ASTPtr cluster_query \<Rightarrow> exn + 's) \<Rightarrow> 'c storage \<Rightarrow> ('e, 'r) heap \<Rightarrow> ASTPtr \<Rightarrow> query_context \<Rightarrow> settings \<Rightarrow>
     stage \<times> (exn + (('e, 'r) heap \<times> 's))" where
  "read execute st h query ctx s =
     (let result_size =
            remote_shard_count (cluster st) * max_parallel_replicas s + local_shard_count (cluster st);
          processed_stage =
            (if result_size = 1 \<or> distributed_group_by_no_merge s
             then Complete else WithMergeableState)
      in (processed_stage,
          (case rewriteSelectQuery h query (remote_database st) (remote_table st) of
             Inl e \<Rightarrow> Inl e
           | Inr (h', modified_query_ast) \<Rightarrow>
               (let external_tables =
                      (if global_subqueries_method s = PUSH then getExternalTables ctx else []);
                    shard_multiplexing = False
                in (case execute
                       \<lparr>constructor = SelectQueryConstructor processed_stage external_tables,
                        query_cluster = cluster st,
                        query_ast = modified_query_ast,
                        query_settings = s,
                        enable_shard_multiplexing = shard_multiplexing\<rparr> of
                      Inl e \<Rightarrow> Inl e
                    | Inr streams \<Rightarrow> Inr (h', streams))))))"

datatype output_stream = DistributedBlockOutputStream ASTPtr

text \<open>\<open>write\<close> (the name is taken by Isar, hence the suffix).\<close>

definition write_distributed ::
  "'c storage \<Rightarrow> ('e, 'r) heap \<Rightarrow> ASTPtr \<Rightarrow> settings \<Rightarrow> exn + (('e, 'r) heap \<times> output_stream)" where
  "write_distributed st h query s =
     (if \<not> write_enabled st
      then Inl (Exception
             (''Method write is not supported by storage '' @ engine st @
              '' with more than one shard and no sharding key provided'')
             STORAGE_REQUIRES_PARAMETER)
      else (case rewriteInsertQuery h query (remote_database st) (remote_table st) of
              Inl e \<Rightarrow> Inl e
            | Inr (h', q) \<Rightarrow> Inr (h', DistributedBlockOutputStream q)))"

record ASTDescribeQuery =
  describe_database :: string
  describe_table :: string

definition describe ::
  "(ASTDescribeQuery cluster_query \<Rightarrow> exn + 's) \<Rightarrow> 'c storage \<Rightarrow> query_context \<Rightarrow> settings \<Rightarrow> exn + 's" where
  "describe execute st ctx s =
     execute
       \<lparr>constructor = DescribeQueryConstructor,
        query_cluster = cluster st,
        query_ast = \<lparr>describe_database = remote_database st, describe_table = remote_table st\<rparr>,
        query_settings = s,
        enable_shard_multiplexing = False\<rparr>"

text \<open>
  \<open>getColumn\<close> and \<open>hasColumn\<close> consult \<open>VirtualColumnFactory\<close> and then \<open>IStorage\<close>; both
  are outside the file and are parameters.
\<close>

definition getColumn ::
  "(string \<Rightarrow> 't option) \<Rightarrow> ('c \<Rightarrow> string \<Rightarrow> exn + (string \<times> 't)) \<Rightarrow> 'c storage \<Rightarrow> string \<Rightarrow>
     exn + (string \<times> 't)" where
  "getColumn tryGetType getRealColumn st column_name =
     (case tryGetType column_name of
        Some ty \<Rightarrow> Inr (column_name, ty)
      | None \<Rightarrow> getRealColumn (columns st) column_name)"

definition hasColumn ::
  "(string \<Rightarrow> bool) \<Rightarrow> ('c \<Rightarrow> string \<Rightarrow> bool) \<Rightarrow> 'c storage \<Rightarrow> string \<Rightarrow> bool" where
  "hasColumn virtual_hasColumn storage_hasColumn st column_name =
     (virtual_hasColumn column_name \<or> storage_hasColumn (columns st) column_name)"

definition getShardCount :: "'c storage \<Rightarrow> 64 word" where
  "getShardCount st = remote_shard_count (cluster st)"

subsection \<open>alter\<close>

text \<open>
  An alter command is known by its \<open>type\<close>; the rest of it is one component of arbitrary
  type. \<open>AlterCommands::apply\<close> and the database's \<open>alterTable\<close> are outside the file and
  are parameters: \<open>apply\<close> returns the schema it leaves behind and the exception it
  threw, if any; \<open>alterTable\<close> returns the exception it threw, if any. The trace records
  the structure lock (released when the scope is left), the application of the commands
  and the call of \<open>alterTable\<close>.
\<close>

datatype alter_type = ADD_COLUMN | DROP_COLUMN | MODIFY_COLUMN | MODIFY_PRIMARY_KEY

record 'p AlterCommand =
  command_type :: alter_type
  command_payload :: 'p

datatype 'c alter_event =
    LockStructureForAlter
  | ApplyCommands 'c "exn option"
  | AlterTable string string 'c "exn option"
  | UnlockStructure

fun check_primary_key :: "string \<Rightarrow> 'p AlterCommand list \<Rightarrow> exn option" where
  "check_primary_key eng [] = None"
| "check_primary_key eng (param # params) =
     (if command_type param = MODIFY_PRIMARY_KEY
      then Some (Exception (''Storage engine '' @ eng @ '' doesn't support primary key.'')
                   NOT_IMPLEMENTED)
      else check_primary_key eng params)"

definition alter ::
  "('p AlterCommand list \<Rightarrow> 'c \<Rightarrow> 'c \<times> exn option) \<Rightarrow> (string \<Rightarrow> string \<Rightarrow> 'c \<Rightarrow> exn option) \<Rightarrow>
     'p AlterCommand list \<Rightarrow> string \<Rightarrow> string \<Rightarrow> 'c storage \<Rightarrow>
     'c storage \<times> 'c alter_event list \<times> exn option" where
  "alter apply alterTable params database_name table_name st =
     (case check_primary_key (engine st) params of
        Some e \<Rightarrow> (st, [], Some e)
      | None \<Rightarrow>
          (case apply params (columns st) of
             (columns', Some e) \<Rightarrow>
               (st\<lparr>columns := columns'\<rparr>,
                [LockStructureForAlter, ApplyCommands columns' (Some e), UnlockStructure],
                Some e)
           | (columns', None) \<Rightarrow>
               (st\<lparr>columns := columns'\<rparr>,
                [LockStructureForAlter, ApplyCommands columns' None,
                 AlterTable database_name table_name columns'
                   (alterTable database_name table_name columns'),
                 UnlockStructure],
                alterTable database_name table_name columns')))"

section \<open>Resharding\<close>

subsection \<open>The resharding worker, as the table drives it\<close>

text \<open>
  \<open>ReshardingWorker\<close> is outside the file. The table calls five of its methods
  (\<open>isStarted\<close> apart); each call returns a string (empty for \<open>void\<close>) or throws. What
  the worker answers may depend on everything that happened before, so the worker is a
  function of the trace so far and of the call. The trace also records what the table
  writes to the log.
\<close>

datatype status = STATUS_ERROR

datatype worker_call =
    CreateCoordinator cluster
  | RegisterQuery string string
  | SetStatus string status string
  | DumpCoordinatorState string
  | DeleteCoordinator string

datatype event =
    Call worker_call "exn + string"
  | TryLogCurrentException exn
  | LOG_ERROR string

type_synonym worker = "event list \<Rightarrow> worker_call \<Rightarrow> exn + string"

definition call :: "worker \<Rightarrow> event list \<Rightarrow> worker_call \<Rightarrow> event list \<times> (exn + string)" where
  "call w tr c = (tr @ [Call c (w tr c)], w tr c)"

subsection \<open>The statement sent to the shards\<close>

datatype Field = Null | Literal string

fun isNull :: "Field \<Rightarrow> bool" where
  "isNull Null = True"
| "isNull (Literal v) = False"

datatype parameter_type = RESHARD_PARTITION

record Parameters =
  param_type :: parameter_type
  param_partition :: "Field option"
  param_last_partition :: "Field option"
  param_weighted_zookeeper_paths :: "(string \<times> nat) list"
  param_sharding_key_expr :: "string option"
  param_do_copy :: bool
  param_coordinator :: "Field option"

record ASTAlterQuery =
  alter_database :: string
  alter_table :: string
  alter_parameters :: "Parameters list"

definition make_alter_query ::
  "'c storage \<Rightarrow> Field \<Rightarrow> Field \<Rightarrow> (string \<times> nat) list \<Rightarrow> string option \<Rightarrow> bool \<Rightarrow> string \<Rightarrow>
     ASTAlterQuery" where
  "make_alter_query st first_partition last_partition weighted_zookeeper_paths sharding_key do_copy
       coordinator_id =
     \<lparr>alter_database = remote_database st,
      alter_table = remote_table st,
      alter_parameters =
        [\<lparr>param_type = RESHARD_PARTITION,
          param_partition = (if \<not> isNull first_partition then Some first_partition else None),
          param_last_partition = (if \<not> isNull last_partition then Some last_partition else None),
          param_weighted_zookeeper_paths = map (\<lambda>entry. (fst entry, snd entry)) weighted_zookeeper_paths,
          param_sharding_key_expr = sharding_key,
          param_do_copy = do_copy,
          param_coordinator = Some (Literal coordinator_id)\<rparr>]\<rparr>"

subsection \<open>The union of the shards' streams\<close>

text \<open>
  \<open>UnionBlockInputStream\<close> is outside the file. A terminating run of the loop
  \<open>while (!stream.isCancelled() && stream.read())\<close> and of what follows it is one of:
  a block was read and the run goes on; the stream was found cancelled; the stream
  ended (then \<open>isCancelled()\<close> answers, and \<open>readSuffix()\<close> returns or throws); a read
  threw.

  Modelled from the spec: when a read of the union throws, the union calls the
  exception callback it was given, once, and then lets the exception through.
\<close>

datatype read_script =
    Block read_script
  | EndOfData bool "exn option"
  | Cancelled
  | ReadThrows exn

record union_stream =
  readPrefix :: "exn option"
  reads :: read_script

record resharding_env =
  isStarted :: bool
  resharding_worker :: worker
  queryToString :: "ASTAlterQuery \<Rightarrow> string"
  execute_alter :: "ASTAlterQuery cluster_query \<Rightarrow> exn + union_stream"

subsection \<open>reshardPartitions\<close>

text \<open>
  The two closures. Both run against the trace and the flag \<open>has_notified_error\<close>;
  \<open>handle_exception\<close> also yields \<open>dumped_coordinator_state\<close>, which starts empty.
\<close>

definition exception_callback :: "worker \<Rightarrow> string \<Rightarrow> event list \<times> bool \<Rightarrow> event list \<times> bool" where
  "exception_callback w coordinator_id s =
     (case s of (tr, has_notified_error) \<Rightarrow>
        (case call w tr (SetStatus coordinator_id STATUS_ERROR []) of
           (tr', Inl x) \<Rightarrow> (tr' @ [TryLogCurrentException x], has_notified_error)
         | (tr', Inr u) \<Rightarrow> (tr', True)))"

definition handle_exception ::
  "worker \<Rightarrow> string \<Rightarrow> string \<Rightarrow> event list \<times> bool \<Rightarrow> event list \<times> string" where
  "handle_exception w coordinator_id msg s =
     (case s of (tr, has_notified_error) \<Rightarrow>
        (case (if \<not> has_notified_error
               then call w tr (SetStatus coordinator_id STATUS_ERROR msg)
               else (tr, Inr [])) of
           (tr1, Inl x) \<Rightarrow> (tr1 @ [TryLogCurrentException x], [])
         | (tr1, Inr u) \<Rightarrow>
             (case call w tr1 (DumpCoordinatorState coordinator_id) of
                (tr2, Inl x) \<Rightarrow> (tr2 @ [TryLogCurrentException x], [])
              | (tr2, Inr dumped_coordinator_state) \<Rightarrow>
                  (case call w tr2 (DeleteCoordinator coordinator_id) of
                     (tr3, Inl x) \<Rightarrow> (tr3 @ [TryLogCurrentException x], dumped_coordinator_state)
                   | (tr3, Inr u') \<Rightarrow> (tr3, dumped_coordinator_state)))))"

text \<open>The loop over the union and the \<open>readSuffix\<close> after it.\<close>

fun drain ::
  "worker \<Rightarrow> string \<Rightarrow> read_script \<Rightarrow> event list \<times> bool \<Rightarrow> (event list \<times> bool) \<times> exn option" where
  "drain w coordinator_id (Block rest) s = drain w coordinator_id rest s"
| "drain w coordinator_id Cancelled s = (s, None)"
| "drain w coordinator_id (EndOfData cancelled suffix) s =
     (if \<not> cancelled then (s, suffix) else (s, None))"
| "drain w coordinator_id (ReadThrows e) s = (exception_callback w coordinator_id s, Some e)"

text \<open>
  The body of the \<open>try\<close> block. The \<open>dynamic_cast\<close> of the union to
  \<open>IProfilingBlockInputStream\<close> cannot fail, so its \<open>LOGICAL_ERROR\<close> branch is not there.
\<close>

definition try_block ::
  "resharding_env \<Rightarrow> 'c storage \<Rightarrow> Field \<Rightarrow> Field \<Rightarrow> (string \<times> nat) list \<Rightarrow> string option \<Rightarrow> bool \<Rightarrow>
     settings \<Rightarrow> string \<Rightarrow> event list \<Rightarrow> (event list \<times> bool) \<times> exn option" where
  "try_block env st first_partition last_partition weighted_zookeeper_paths sharding_key do_copy s
       coordinator_id tr =
     (let alter_query = make_alter_query st first_partition last_partition
                          weighted_zookeeper_paths sharding_key do_copy coordinator_id
      in (case call (resharding_worker env) tr
                 (RegisterQuery coordinator_id (queryToString env alter_query)) of
            (tr1, Inl e) \<Rightarrow> ((tr1, False), Some e)
          | (tr1, Inr u) \<Rightarrow>
              (case execute_alter env
                      \<lparr>constructor = AlterQueryConstructor,
                       query_cluster = cluster st,
                       query_ast = alter_query,
                       query_settings = s,
                       enable_shard_multiplexing = False\<rparr> of
                 Inl e \<Rightarrow> ((tr1, False), Some e)
               | Inr stream \<Rightarrow>
                   (case readPrefix stream of
                      Some e \<Rightarrow> ((tr1, False), Some e)
                    | None \<Rightarrow>
                        drain (resharding_worker env) coordinator_id (reads stream) (tr1, False)))))"

text \<open>What each catch clause passes to \<open>handle_exception\<close>.\<close>

fun catch_message :: "exn \<Rightarrow> string" where
  "catch_message (Exception message code) = message"
| "catch_message (StdException what) = what"
| "catch_message (UnknownException n) = []"

definition reshardPartitions ::
  "resharding_env \<Rightarrow> 'c storage \<Rightarrow> Field \<Rightarrow> Field \<Rightarrow> (string \<times> nat) list \<Rightarrow> string option \<Rightarrow> bool \<Rightarrow>
     Field \<Rightarrow> settings \<Rightarrow> event list \<times> exn option" where
  "reshardPartitions env st first_partition last_partition weighted_zookeeper_paths sharding_key
       do_copy coordinator s =
     (if \<not> isStarted env
      then ([], Some (Exception ''Resharding background thread is not running'' RESHARDING_NO_WORKER))
      else if \<not> isNull coordinator
      then ([], Some (Exception
                  (''Use of COORDINATE WITH is forbidden in ALTER TABLE ... RESHARD'' @
                   '' queries for distributed tables'')
                  RESHARDING_INVALID_PARAMETERS))
      else (case call (resharding_worker env) [] (CreateCoordinator (cluster st)) of
              (tr0, Inl e) \<Rightarrow> (tr0, Some e)
            | (tr0, Inr coordinator_id) \<Rightarrow>
                (case try_block env st first_partition last_partition weighted_zookeeper_paths
                        sharding_key do_copy s coordinator_id tr0 of
                   (r, None) \<Rightarrow> (fst r, None)
                 | (r, Some ex) \<Rightarrow>
                     (case handle_exception (resharding_worker env) coordinator_id
                             (catch_message ex) r of
                        (tr, dumped_coordinator_state) \<Rightarrow>
                          (tr @ [LOG_ERROR dumped_coordinator_state], Some ex)))))"

subsection \<open>The operations of the table\<close>

text \<open>
  Every member function of the file, with its arguments, and the table it leaves behind.
  \<open>read\<close>, \<open>write\<close>, \<open>reshardPartitions\<close>, \<open>describe\<close>, \<open>getColumn\<close>, \<open>hasColumn\<close> and
  \<open>getShardCount\<close> assign no member (what they do is in their results and in the
  worker's trace), so the table after them is the table before.
\<close>

datatype ('e, 'r, 'p, 'c) operation =
    OpRead "('e, 'r) heap" ASTPtr query_context settings
  | OpWrite "('e, 'r) heap" ASTPtr settings
  | OpAlter "'p AlterCommand list \<Rightarrow> 'c \<Rightarrow> 'c \<times> exn option" "string \<Rightarrow> string \<Rightarrow> 'c \<Rightarrow> exn option"
      "'p AlterCommand list" string string
  | OpShutdown
  | OpReshardPartitions resharding_env Field Field "(string \<times> nat) list" "string option" bool
      Field settings
  | OpDescribe query_context settings
  | OpGetColumn string
  | OpHasColumn string
  | OpCreateDirectoryMonitor string
  | OpCreateDirectoryMonitors filesystem
  | OpRequireDirectoryMonitor string
  | OpGetShardCount

fun perform :: "('e, 'r, 'p, 'c) operation \<Rightarrow> 'c storage \<Rightarrow> 'c storage" where
  "perform (OpRead h query ctx s) st = st"
| "perform (OpWrite h query s) st = st"
| "perform (OpAlter apply alterTable params database_name table_name) st =
     fst (alter apply alterTable params database_name table_name st)"
| "perform OpShutdown st = shutdown st"
| "perform (OpReshardPartitions env fp lp paths key do_copy coordinator s) st = st"
| "perform (OpDescribe ctx s) st = st"
| "perform (OpGetColumn column_name) st = st"
| "perform (OpHasColumn column_name) st = st"
| "perform (OpCreateDirectoryMonitor nm) st = createDirectoryMonitor nm st"
| "perform (OpCreateDirectoryMonitors fs) st = fst (createDirectoryMonitors fs st)"
| "perform (OpRequireDirectoryMonitor nm) st = requireDirectoryMonitor nm st"
| "perform OpGetShardCount st = st"

section \<open>Observing a trace\<close>

text \<open>
  What the claims count in a trace: the calls of \<open>setStatus\<close> with \<open>STATUS_ERROR\<close>, those
  of them that returned, and the calls made, in order.
\<close>

fun setStatus_invoked :: "event \<Rightarrow> bool" where
  "setStatus_invoked (Call (SetStatus coordinator_id STATUS_ERROR msg) r) = True"
| "setStatus_invoked (Call (CreateCoordinator cl) r) = False"
| "setStatus_invoked (Call (RegisterQuery coordinator_id text) r) = False"
| "setStatus_invoked (Call (DumpCoordinatorState coordinator_id) r) = False"
| "setStatus_invoked (Call (DeleteCoordinator coordinator_id) r) = False"
| "setStatus_invoked (TryLogCurrentException x) = False"
| "setStatus_invoked (LOG_ERROR d) = False"

fun returned :: "event \<Rightarrow> bool" where
  "returned (Call c (Inr v)) = True"
| "returned (Call c (Inl x)) = False"
| "returned (TryLogCurrentException x) = False"
| "returned (LOG_ERROR d) = False"

definition setStatus_invocations :: "event list \<Rightarrow> nat" where
  "setStatus_invocations tr = length (filter setStatus_invoked tr)"

definition setStatus_returns :: "event list \<Rightarrow> nat" where
  "setStatus_returns tr = length (filter (\<lambda>e. setStatus_invoked e \<and> returned e) tr)"

fun calls :: "event list \<Rightarrow> worker_call list" where
  "calls [] = []"
| "calls (Call c r # es) = c # calls es"
| "calls (TryLogCurrentException x # es) = calls es"
| "calls (LOG_ERROR d # es) = calls es"

text \<open>
  The state of the counts between the \<open>try\<close> block and the cleanup: with the flag set,
  one call was made and it returned; with the flag unset, none returned and at most one
  was made.
\<close>

definition counted :: "event list \<times> bool \<Rightarrow> bool" where
  "counted r =
     (if snd r then setStatus_returns (fst r) = 1 \<and> setStatus_invocations (fst r) = 1
      else setStatus_returns (fst r) = 0 \<and> setStatus_invocations (fst r) \<le> 1)"

subsection \<open>Best-effort cleanup, said directly\<close>

text \<open>
  The cleanup as a plan and its best-effort execution: the calls to make, in order
  (\<open>setStatus\<close> unless the flag is set, then the dump, then the deletion); each is made
  in turn until one throws, and the exception of that one is logged. \<open>dumped\<close> reads off
  a list of events the state that a \<open>dumpCoordinatorState\<close> returned, empty if none did.
\<close>

definition cleanup_calls :: "bool \<Rightarrow> string \<Rightarrow> string \<Rightarrow> worker_call list" where
  "cleanup_calls has_notified_error coordinator_id msg =
     (if has_notified_error then [] else [SetStatus coordinator_id STATUS_ERROR msg]) @
     [DumpCoordinatorState coordinator_id, DeleteCoordinator coordinator_id]"

fun best_effort :: "worker \<Rightarrow> worker_call list \<Rightarrow> event list \<Rightarrow> event list" where
  "best_effort w [] tr = tr"
| "best_effort w (c # cs) tr =
     (case w tr c of
        Inl x \<Rightarrow> tr @ [Call c (Inl x), TryLogCurrentException x]
      | Inr v \<Rightarrow> best_effort w cs (tr @ [Call c (Inr v)]))"

fun dumped :: "event list \<Rightarrow> string" where
  "dumped [] = []"
| "dumped (Call (DumpCoordinatorState coordinator_id) (Inr d) # es) = d"
| "dumped (e # es) = dumped es"

section \<open>Concrete inputs\<close>

text \<open>
  A store holding a select and an insert-select, a store holding only the select and
  one holding only the insert-select, settings whose \<open>max_parallel_replicas\<close> is
  \<open>2 ^ 63\<close>, a data directory with two shard
  subdirectories (no batch pending in either) and a regular file, settings, a table,
  an \<open>apply\<close> and an \<open>alterTable\<close> that succeed, three workers (one that always returns,
  one whose first \<open>setStatus\<close> throws, one whose dump throws) and two unions of streams
  (one whose second read throws, one whose \<open>readPrefix\<close> throws).
\<close>

definition example_heap :: "(string, string) heap" where
  "example_heap =
     [SelectQuery \<lparr>select_database = None, select_table = Some (ASTIdentifier ''hits_all'' Table),
                   select_clauses = ''WHERE x > 1 ORDER BY y''\<rparr>,
      InsertQuery \<lparr>insert_database = ''default'', insert_table = ''hits_all'',
                   insert_select = Some \<lparr>select_database = None, select_table = None,
                                          select_clauses = ''SELECT 1''\<rparr>,
                   insert_payload = ''VALUES (1, 2)''\<rparr>]"

definition example_fs :: filesystem where
  "example_fs = [''/data/hits_all/'' \<mapsto>
      [(''shard1'', SubDirectory 0), (''notes.txt'', RegularFile), (''shard2'', SubDirectory 0)]]"

definition example_settings :: settings where
  "example_settings =
     \<lparr>max_parallel_replicas = 1, distributed_group_by_no_merge = False,
      global_subqueries_method = PUSH, max_distributed_connections = 1024\<rparr>"

definition select_only_heap :: "(string, string) heap" where
  "select_only_heap =
     [SelectQuery \<lparr>select_database = None, select_table = Some (ASTIdentifier ''hits_all'' Table),
                   select_clauses = ''WHERE x > 1 ORDER BY y''\<rparr>]"

definition insert_only_heap :: "(string, string) heap" where
  "insert_only_heap =
     [InsertQuery \<lparr>insert_database = ''default'', insert_table = ''hits_all'',
                   insert_select = Some \<lparr>select_database = None, select_table = None,
                                          select_clauses = ''SELECT 1''\<rparr>,
                   insert_payload = ''VALUES (1, 2)''\<rparr>]"

definition wrapping_settings :: settings where
  "wrapping_settings = example_settings\<lparr>max_parallel_replicas := 9223372036854775808\<rparr>"

definition example_storage :: "string list storage" where
  "example_storage =
     \<lparr>engine = ''Distributed'', name = ''hits_all'', columns = [''id''],
      remote_database = ''db'', remote_table = ''hits'',
      cluster = \<lparr>local_shard_count = 1, remote_shard_count = 2\<rparr>,
      sharding_key_expr = True, sharding_key_column_name = ''id'',
      write_enabled = True, path = ''/data/hits_all/'', directory_monitors = []\<rparr>"

definition example_apply :: "string AlterCommand list \<Rightarrow> string list \<Rightarrow> string list \<times> exn option" where
  "example_apply params cols = (cols @ map command_payload params, None)"

definition example_alterTable :: "string \<Rightarrow> string \<Rightarrow> string list \<Rightarrow> exn option" where
  "example_alterTable database_name table_name cols = None"

definition steady_worker :: worker where
  "steady_worker tr c =
     (case c of
        CreateCoordinator cl \<Rightarrow> Inr ''coordinator-1''
      | RegisterQuery coordinator_id text \<Rightarrow> Inr []
      | SetStatus coordinator_id st msg \<Rightarrow> Inr []
      | DumpCoordinatorState coordinator_id \<Rightarrow> Inr ''state of coordinator-1''
      | DeleteCoordinator coordinator_id \<Rightarrow> Inr [])"

definition failing_status_worker :: worker where
  "failing_status_worker tr c =
     (case c of
        SetStatus coordinator_id st msg \<Rightarrow>
          (if setStatus_invocations tr = 0 then Inl (StdException ''connection loss'') else Inr [])
      | CreateCoordinator cl \<Rightarrow> steady_worker tr c
      | RegisterQuery coordinator_id text \<Rightarrow> steady_worker tr c
      | DumpCoordinatorState coordinator_id \<Rightarrow> steady_worker tr c
      | DeleteCoordinator coordinator_id \<Rightarrow> steady_worker tr c)"

definition failing_dump_worker :: worker where
  "failing_dump_worker tr c =
     (case c of
        DumpCoordinatorState coordinator_id \<Rightarrow> Inl (StdException ''connection loss'')
      | CreateCoordinator cl \<Rightarrow> steady_worker tr c
      | RegisterQuery coordinator_id text \<Rightarrow> steady_worker tr c
      | SetStatus coordinator_id st msg \<Rightarrow> steady_worker tr c
      | DeleteCoordinator coordinator_id \<Rightarrow> steady_worker tr c)"

definition example_env :: "bool \<Rightarrow> worker \<Rightarrow> union_stream \<Rightarrow> resharding_env" where
  "example_env started w stream =
     \<lparr>isStarted = started,
      resharding_worker = w,
      queryToString = (\<lambda>q. ''ALTER TABLE '' @ alter_database q @ ''.'' @ alter_table q @ '' RESHARD''),
      execute_alter = (\<lambda>q. Inr stream)\<rparr>"

definition shard_failure :: exn where
  "shard_failure = Exception ''Timeout exceeded while reading from shard'' (OTHER_CODE 209)"

definition failing_read :: union_stream where
  "failing_read = \<lparr>readPrefix = None, reads = Block (ReadThrows shard_failure)\<rparr>"

definition failing_prefix :: union_stream where
  "failing_prefix = \<lparr>readPrefix = Some shard_failure, reads = Cancelled\<rparr>"

section \<open>The processing stage of a read\<close>

text \<open>
  The sum that \<open>read\<close> compares with 1 is computed in \<open>size_t\<close>: it is the exact sum of
  the counts modulo \<open>2 ^ 64\<close>.
\<close>

lemma result_size_exact:
  fixes r m l :: "64 word"
  shows "(r * m + l = 1) = ((unat r * unat m + unat l) mod 2 ^ 64 = 1)"
proof -
  have "unat (r * m + l) = (unat r * unat m + unat l) mod 2 ^ 64"
    by (simp add: unat_word_ariths mod_simps)
  then show ?thesis
    by (simp add: word_unat_eq_iff)
qed

text \<open>
  Claim C3, as stated, at a cluster of two remote shards and one local shard read with
  \<open>max_parallel_replicas = 2 ^ 63\<close> and merging not disabled: the exact sum is
  \<open>2 ^ 64 + 1\<close>, not 1, and the stage is \<open>Complete\<close>.
\<close>

theorem processed_stage_wraps_counterexample:
  "unat (remote_shard_count (cluster example_storage)) = 2
   \<and> unat (local_shard_count (cluster example_storage)) = 1
   \<and> unat (max_parallel_replicas wrapping_settings) = 9223372036854775808
   \<and> (2::nat) * 9223372036854775808 + 1 \<noteq> 1
   \<and> \<not> distributed_group_by_no_merge wrapping_settings
   \<and> fst (read (\<lambda>q. Inr ()) example_storage example_heap 0 \<lparr>getExternalTables = []\<rparr>
             wrapping_settings) = Complete"
  by (simp add: read_def Let_def example_storage_def wrapping_settings_def example_settings_def)

text \<open>
  Claim C3, amended. For every call of \<open>read\<close>, whatever the query and whatever
  \<open>execute()\<close> does, the stage written to \<open>processed_stage\<close> is \<open>Complete\<close> if and only if
  \<open>remoteShardCount * max_parallel_replicas + localShardCount\<close>, taken modulo \<open>2 ^ 64\<close>,
  equals 1 or \<open>distributed_group_by_no_merge\<close> is set, and it is \<open>WithMergeableState\<close>
  otherwise. Whenever the exact sum is below \<open>2 ^ 64\<close>, the stage is \<open>Complete\<close> if and
  only if the exact sum equals 1 or \<open>distributed_group_by_no_merge\<close> is set.
\<close>

theorem read_processed_stage:
  "(fst (read execute st h query ctx s) = Complete) =
     ((unat (remote_shard_count (cluster st)) * unat (max_parallel_replicas s)
        + unat (local_shard_count (cluster st))) mod 2 ^ 64 = 1
      \<or> distributed_group_by_no_merge s)
   \<and> fst (read execute st h query ctx s) =
     (if (unat (remote_shard_count (cluster st)) * unat (max_parallel_replicas s)
            + unat (local_shard_count (cluster st))) mod 2 ^ 64 = 1
         \<or> distributed_group_by_no_merge s
      then Complete else WithMergeableState)
   \<and> (unat (remote_shard_count (cluster st)) * unat (max_parallel_replicas s)
         + unat (local_shard_count (cluster st)) < 2 ^ 64 \<longrightarrow>
       (fst (read execute st h query ctx s) = Complete) =
         (unat (remote_shard_count (cluster st)) * unat (max_parallel_replicas s)
            + unat (local_shard_count (cluster st)) = 1
          \<or> distributed_group_by_no_merge s))"
  by (simp add: read_def Let_def result_size_exact)

theorem read_processed_stage_witness:
  "unat (remote_shard_count (cluster example_storage))
       * unat (max_parallel_replicas example_settings)
     + unat (local_shard_count (cluster example_storage)) < 2 ^ 64
   \<and> unat (remote_shard_count (cluster example_storage))
       * unat (max_parallel_replicas example_settings)
     + unat (local_shard_count (cluster example_storage)) = 3
   \<and> fst (read (\<lambda>q. Inr ()) example_storage example_heap 0 \<lparr>getExternalTables = []\<rparr>
             example_settings) = WithMergeableState"
  using read_processed_stage
          [of "\<lambda>q. Inr ()" example_storage example_heap 0 "\<lparr>getExternalTables = []\<rparr>"
              example_settings]
  by (simp add: example_storage_def example_settings_def)

section \<open>The shard count the table reports\<close>

text \<open>
  Claim C10. \<open>getShardCount\<close> returns the remote shard count of the cluster and nothing
  else: for a cluster of \<open>n\<close> local shards and no remote shard it returns 0, whatever
  \<open>n\<close> is.
\<close>

theorem getShardCount_remote_only:
  "getShardCount st = remote_shard_count (cluster st) \<and>
   getShardCount (st\<lparr>cluster := \<lparr>local_shard_count = n, remote_shard_count = 0\<rparr>\<rparr>) = 0"
  by (simp add: getShardCount_def)

section \<open>The write-enabled flag\<close>

lemma write_enabled_createDirectoryMonitor [simp]:
  "write_enabled (createDirectoryMonitor nm st) = write_enabled st"
  by (simp add: createDirectoryMonitor_def)

lemma write_enabled_iterate_directory [simp]:
  "write_enabled (iterate_directory es st) = write_enabled st"
  by (induction es st rule: iterate_directory.induct) simp_all

lemma write_enabled_createDirectoryMonitors [simp]:
  "write_enabled (fst (createDirectoryMonitors fs st)) = write_enabled st"
  by (simp add: createDirectoryMonitors_def Let_def)

lemma write_enabled_alter [simp]:
  "write_enabled (fst (alter apply alterTable params db tb st)) = write_enabled st"
  by (simp add: alter_def split: option.splits prod.splits)

lemma write_enabled_perform:
  "write_enabled (perform op st) = write_enabled st"
  by (cases op) (simp_all add: shutdown_def requireDirectoryMonitor_def)

lemma write_enabled_StorageDistributed:
  "write_enabled (fst (StorageDistributed esc fs eng nm cols rdb rtb cl key dp)) =
     (dp \<noteq> [] \<and> (local_shard_count cl + remote_shard_count cl < 2 \<or> key \<noteq> None))"
  by (simp add: StorageDistributed_def)

text \<open>
  Claim C6. The table that the constructor returns has \<open>write_enabled\<close> equal to: the data
  path is not empty, and the total shard count is below 2 or a sharding key was given.
  The directory scan at the end of the constructor does not touch the flag, and no
  operation of the table changes it afterwards.
\<close>

theorem write_enabled_fixed:
  "write_enabled (fst (StorageDistributed esc fs eng nm cols rdb rtb cl key dp)) =
     (dp \<noteq> [] \<and> (local_shard_count cl + remote_shard_count cl < 2 \<or> key \<noteq> None))
   \<and> write_enabled (perform op st) = write_enabled st"
  by (simp add: write_enabled_StorageDistributed write_enabled_perform)

section \<open>Rewriting a statement for the shards\<close>

lemma lookup_Some: "lookup h p = Some a \<Longrightarrow> p < length h \<and> h ! p = a"
  by (simp add: lookup_def split: if_splits)

lemma rewriteSelectQuery_select:
  assumes "lookup h query = Some (SelectQuery q)"
  shows "rewriteSelectQuery h query database table =
     Inr (h @ [SelectQuery (q\<lparr>select_database := Some (ASTIdentifier database Database),
                              select_table := Some (ASTIdentifier table Table)\<rparr>)], length h)"
  using assms by (simp add: rewriteSelectQuery_def clone_def)

lemma rewriteInsertQuery_insert:
  assumes "lookup h query = Some (InsertQuery i)"
  shows "rewriteInsertQuery h query database table =
     Inr (h @ [InsertQuery (i\<lparr>insert_database := database, insert_table := table,
                              insert_select := None\<rparr>)], length h)"
  using assms by (simp add: rewriteInsertQuery_def clone_def)

lemma lookup_append_old: "lookup h p = Some a \<Longrightarrow> lookup (h @ [b]) p = Some a"
  by (auto simp add: lookup_def nth_append split: if_splits)

lemma lookup_append_new: "lookup (h @ [b]) (length h) = Some b"
  by (simp add: lookup_def)

text \<open>
  Claim C7. In any store, for a pointer to a select query, \<open>rewriteSelectQuery\<close> returns a pointer to a
  new object, a select query whose database and table are the two fresh identifiers and
  whose other clauses are those of the input. For a pointer to an insert query,
  \<open>rewriteInsertQuery\<close> returns a pointer to a new object, an insert query with the two
  names replaced, the nested select null and the rest of the input. In both cases the
  result is not the input pointer, every object of the store is as it was, and in
  particular the input statement is unmodified.
\<close>

theorem rewrite_changes_target_only:
  "(lookup h query_s = Some (SelectQuery q) \<longrightarrow>
      (\<exists>h' p q'.
         rewriteSelectQuery h query_s database table = Inr (h', p) \<and>
         lookup h' p = Some (SelectQuery q') \<and>
         select_database q' = Some (ASTIdentifier database Database) \<and>
         select_table q' = Some (ASTIdentifier table Table) \<and>
         select_clauses q' = select_clauses q \<and>
         p \<noteq> query_s \<and> take (length h) h' = h \<and>
         lookup h' query_s = Some (SelectQuery q)))
   \<and> (lookup g query_i = Some (InsertQuery i) \<longrightarrow>
      (\<exists>g' p i'.
         rewriteInsertQuery g query_i database table = Inr (g', p) \<and>
         lookup g' p = Some (InsertQuery i') \<and>
         insert_database i' = database \<and>
         insert_table i' = table \<and>
         insert_select i' = None \<and>
         insert_payload i' = insert_payload i \<and>
         p \<noteq> query_i \<and> take (length g) g' = g \<and>
         lookup g' query_i = Some (InsertQuery i)))"
proof (intro conjI impI)
  assume s: "lookup h query_s = Some (SelectQuery q)"
  then have "query_s < length h" by (simp add: lookup_Some)
  with s show "\<exists>h' p q'.
         rewriteSelectQuery h query_s database table = Inr (h', p) \<and>
         lookup h' p = Some (SelectQuery q') \<and>
         select_database q' = Some (ASTIdentifier database Database) \<and>
         select_table q' = Some (ASTIdentifier table Table) \<and>
         select_clauses q' = select_clauses q \<and>
         p \<noteq> query_s \<and> take (length h) h' = h \<and>
         lookup h' query_s = Some (SelectQuery q)"
    by (simp add: rewriteSelectQuery_select lookup_append_old lookup_append_new)
next
  assume i: "lookup g query_i = Some (InsertQuery i)"
  then have "query_i < length g" by (simp add: lookup_Some)
  with i show "\<exists>g' p i'.
         rewriteInsertQuery g query_i database table = Inr (g', p) \<and>
         lookup g' p = Some (InsertQuery i') \<and>
         insert_database i' = database \<and>
         insert_table i' = table \<and>
         insert_select i' = None \<and>
         insert_payload i' = insert_payload i \<and>
         p \<noteq> query_i \<and> take (length g) g' = g \<and>
         lookup g' query_i = Some (InsertQuery i)"
    by (simp add: rewriteInsertQuery_insert lookup_append_old lookup_append_new)
qed

theorem rewrite_changes_target_only_witness:
  "lookup select_only_heap 0 = Some (SelectQuery \<lparr>select_database = None,
       select_table = Some (ASTIdentifier ''hits_all'' Table),
       select_clauses = ''WHERE x > 1 ORDER BY y''\<rparr>)
   \<and> lookup insert_only_heap 0 = Some (InsertQuery \<lparr>insert_database = ''default'',
       insert_table = ''hits_all'',
       insert_select = Some \<lparr>select_database = None, select_table = None,
                              select_clauses = ''SELECT 1''\<rparr>,
       insert_payload = ''VALUES (1, 2)''\<rparr>)
   \<and> (\<exists>h' p q'.
         rewriteSelectQuery select_only_heap 0 ''db'' ''hits'' = Inr (h', p) \<and>
         lookup h' p = Some (SelectQuery q') \<and>
         select_database q' = Some (ASTIdentifier ''db'' Database) \<and>
         select_table q' = Some (ASTIdentifier ''hits'' Table) \<and>
         select_clauses q' = ''WHERE x > 1 ORDER BY y'' \<and>
         p \<noteq> 0 \<and> take (length select_only_heap) h' = select_only_heap)
   \<and> (\<exists>g' p i'.
         rewriteInsertQuery insert_only_heap 0 ''db'' ''hits'' = Inr (g', p) \<and>
         lookup g' p = Some (InsertQuery i') \<and>
         insert_database i' = ''db'' \<and>
         insert_table i' = ''hits'' \<and>
         insert_select i' = None \<and>
         insert_payload i' = ''VALUES (1, 2)'' \<and>
         p \<noteq> 0 \<and> take (length insert_only_heap) g' = insert_only_heap)"
proof -
  have s: "lookup select_only_heap 0 = Some (SelectQuery \<lparr>select_database = None,
       select_table = Some (ASTIdentifier ''hits_all'' Table),
       select_clauses = ''WHERE x > 1 ORDER BY y''\<rparr>)"
    by (simp add: select_only_heap_def lookup_def)
  have i: "lookup insert_only_heap 0 = Some (InsertQuery \<lparr>insert_database = ''default'',
       insert_table = ''hits_all'',
       insert_select = Some \<lparr>select_database = None, select_table = None,
                              select_clauses = ''SELECT 1''\<rparr>,
       insert_payload = ''VALUES (1, 2)''\<rparr>)"
    by (simp add: insert_only_heap_def lookup_def)
  from rewrite_changes_target_only
          [of select_only_heap 0
              "\<lparr>select_database = None, select_table = Some (ASTIdentifier ''hits_all'' Table),
                select_clauses = ''WHERE x > 1 ORDER BY y''\<rparr>"
              "''db''" "''hits''" insert_only_heap 0
              "\<lparr>insert_database = ''default'', insert_table = ''hits_all'',
                insert_select = Some \<lparr>select_database = None, select_table = None,
                                       select_clauses = ''SELECT 1''\<rparr>,
                insert_payload = ''VALUES (1, 2)''\<rparr>"] s i
  show ?thesis by auto
qed

section \<open>Delivery queues at startup\<close>

lemma entries_createDirectory [simp]: "entries (createDirectory fs p) p = entries fs p"
  by (simp add: entries_def createDirectory_def split: option.splits)

lemma directory_monitors_iterate_directory:
  "distinct (map fst es) \<Longrightarrow> set (map fst es) \<inter> set (directory_monitors st) = {} \<Longrightarrow>
   directory_monitors (iterate_directory es st) =
     directory_monitors st @ map fst (filter (\<lambda>x. isDirectory (snd x)) es)"
proof (induction es st rule: iterate_directory.induct)
  case (1 st)
  then show ?case by simp
next
  case (2 nm e it st)
  then show ?case
    by (auto simp add: createDirectoryMonitor_def emplace_def)
qed

text \<open>
  Claim C8. When the table is constructed with a data path, the directory monitors it
  holds are exactly the subdirectories of its directory, one monitor each, in the order
  of the listing: a subdirectory with no pending batch is adopted like any other, a
  regular file is not. (The names in a directory listing are distinct.) At a directory
  with two subdirectories this gives two monitors, before any query.
\<close>

theorem startup_adopts_every_subdirectory:
  assumes "data_path \<noteq> []"
    and "distinct (map fst (entries fs (data_path @ esc nm @ ''/'')))"
  shows "directory_monitors (fst (StorageDistributed esc fs eng nm cols rdb rtb cl key data_path)) =
           map fst (filter (\<lambda>x. isDirectory (snd x)) (entries fs (data_path @ esc nm @ ''/'')))"
  using assms
  by (simp add: StorageDistributed_def createDirectoryMonitors_def Let_def
      directory_monitors_iterate_directory)

theorem startup_adopts_every_subdirectory_witness:
  "''/data/'' \<noteq> []
   \<and> distinct (map fst (entries example_fs (''/data/'' @ id ''hits_all'' @ ''/'')))
   \<and> directory_monitors (fst (StorageDistributed id example_fs ''Distributed'' ''hits_all'' ()
        ''db'' ''hits'' \<lparr>local_shard_count = 1, remote_shard_count = 1\<rparr> None ''/data/''))
      = [''shard1'', ''shard2'']"
proof -
  have p: "''/data/'' \<noteq> []" by simp
  have d: "distinct (map fst (entries example_fs (''/data/'' @ id ''hits_all'' @ ''/'')))"
    by (simp add: example_fs_def entries_def)
  from startup_adopts_every_subdirectory
         [where data_path = "''/data/''" and fs = example_fs and esc = id and nm = "''hits_all''",
          OF p d] d
  show ?thesis by (simp add: example_fs_def entries_def)
qed

section \<open>When a write is refused\<close>

lemma iterate_directory_frame:
  "\<exists>ms. iterate_directory es st = st\<lparr>directory_monitors := ms\<rparr>"
proof (induction es st rule: iterate_directory.induct)
  case (1 st)
  have "st = st\<lparr>directory_monitors := directory_monitors st\<rparr>" by simp
  then show ?case by (metis iterate_directory.simps(1))
next
  case (2 nm e it st)
  then show ?case
    by (cases "isDirectory e") (auto simp add: createDirectoryMonitor_def)
qed

lemma createDirectoryMonitors_frame:
  "\<exists>ms. fst (createDirectoryMonitors fs st) = st\<lparr>directory_monitors := ms\<rparr>"
proof (cases "path st = []")
  case True
  have "st = st\<lparr>directory_monitors := directory_monitors st\<rparr>" by simp
  with True show ?thesis by (metis createDirectoryMonitors_def fst_conv)
next
  case False
  then show ?thesis
    by (simp add: createDirectoryMonitors_def Let_def iterate_directory_frame)
qed

lemma write_distributed_frame [simp]:
  "write_distributed (st\<lparr>directory_monitors := ms\<rparr>) h query s = write_distributed st h query s"
  by (simp add: write_distributed_def)

lemma write_distributed_StorageDistributed:
  "write_distributed (fst (StorageDistributed esc fs eng nm cols rdb rtb cl key dp)) h query s =
     (if dp = [] \<or> (2 \<le> local_shard_count cl + remote_shard_count cl \<and> key = None)
      then Inl (Exception
             (''Method write is not supported by storage '' @ eng @
              '' with more than one shard and no sharding key provided'')
             STORAGE_REQUIRES_PARAMETER)
      else (case rewriteInsertQuery h query rdb rtb of
              Inl e \<Rightarrow> Inl e
            | Inr (h', q) \<Rightarrow> Inr (h', DistributedBlockOutputStream q)))"
proof -
  obtain ms where "fst (StorageDistributed esc fs eng nm cols rdb rtb cl key dp) =
      \<lparr>engine = eng, name = nm, columns = cols, remote_database = rdb, remote_table = rtb,
       cluster = cl,
       sharding_key_expr = (case key of None \<Rightarrow> False | Some k \<Rightarrow> True),
       sharding_key_column_name = (case key of None \<Rightarrow> [] | Some k \<Rightarrow> k),
       write_enabled =
          (dp \<noteq> [] \<and> (local_shard_count cl + remote_shard_count cl < 2 \<or> key \<noteq> None)),
       path = (if dp = [] then [] else dp @ esc nm @ ''/''),
       directory_monitors = []\<rparr>\<lparr>directory_monitors := ms\<rparr>"
    unfolding StorageDistributed_def using createDirectoryMonitors_frame by blast
  then show ?thesis
    by (auto simp add: write_distributed_def not_less)
qed

text \<open>
  Claim C2, as stated, at a table constructed without a data path (as the overload of
  \<open>create\<close> that owns its cluster does): one shard in all, a sharding key given, a
  well-formed insert, and \<open>write\<close> throws.
\<close>

theorem write_without_data_path_counterexample:
  "local_shard_count \<lparr>local_shard_count = 1, remote_shard_count = 0\<rparr>
     + remote_shard_count \<lparr>local_shard_count = 1, remote_shard_count = 0\<rparr> = 1
   \<and> write_distributed
       (fst (StorageDistributed id Map.empty ''Distributed'' ''hits_all'' () ''db'' ''hits''
               \<lparr>local_shard_count = 1, remote_shard_count = 0\<rparr> (Some ''user_id'') []))
       example_heap 1 example_settings
     = Inl (Exception
         ''Method write is not supported by storage Distributed with more than one shard and no sharding key provided''
         STORAGE_REQUIRES_PARAMETER)"
  by (simp add: StorageDistributed_def createDirectoryMonitors_def write_distributed_def)

text \<open>
  Claim C2, amended. For a well-formed insert, \<open>write\<close> on a constructed table throws
  \<open>STORAGE_REQUIRES_PARAMETER\<close> exactly when no data path was given, or the total shard
  count is at least 2 and no sharding key was given; it returns an output stream exactly
  when a data path was given and the total shard count is below 2 or a sharding key was
  given.
\<close>

theorem write_throws_iff:
  assumes "lookup h query = Some (InsertQuery i)"
  shows "((\<exists>m. write_distributed (fst (StorageDistributed esc fs eng nm cols rdb rtb cl key dp)) h query s
              = Inl (Exception m STORAGE_REQUIRES_PARAMETER))
          = (dp = [] \<or> (2 \<le> local_shard_count cl + remote_shard_count cl \<and> key = None)))
       \<and> ((\<exists>h' q. write_distributed (fst (StorageDistributed esc fs eng nm cols rdb rtb cl key dp)) h query s
              = Inr (h', DistributedBlockOutputStream q))
          = (dp \<noteq> [] \<and> (local_shard_count cl + remote_shard_count cl < 2 \<or> key \<noteq> None)))"
  using assms
  by (auto simp add: write_distributed_StorageDistributed rewriteInsertQuery_insert not_le)

theorem write_throws_iff_witness:
  "lookup example_heap 1 = Some (InsertQuery \<lparr>insert_database = ''default'',
       insert_table = ''hits_all'',
       insert_select = Some \<lparr>select_database = None, select_table = None,
                              select_clauses = ''SELECT 1''\<rparr>,
       insert_payload = ''VALUES (1, 2)''\<rparr>)
   \<and> (\<exists>h' q. write_distributed
         (fst (StorageDistributed id example_fs ''Distributed'' ''hits_all'' () ''db'' ''hits''
                 \<lparr>local_shard_count = 1, remote_shard_count = 2\<rparr> (Some ''user_id'') ''/data/''))
         example_heap 1 example_settings = Inr (h', DistributedBlockOutputStream q))
   \<and> (\<exists>m. write_distributed
         (fst (StorageDistributed id example_fs ''Distributed'' ''hits_all'' () ''db'' ''hits''
                 \<lparr>local_shard_count = 1, remote_shard_count = 2\<rparr> None ''/data/''))
         example_heap 1 example_settings = Inl (Exception m STORAGE_REQUIRES_PARAMETER))"
proof -
  have i: "lookup example_heap 1 = Some (InsertQuery \<lparr>insert_database = ''default'',
       insert_table = ''hits_all'',
       insert_select = Some \<lparr>select_database = None, select_table = None,
                              select_clauses = ''SELECT 1''\<rparr>,
       insert_payload = ''VALUES (1, 2)''\<rparr>)"
    by (simp add: example_heap_def lookup_def)
  from write_throws_iff [OF i, of id example_fs "''Distributed''" "''hits_all''" "()" "''db''"
         "''hits''" "\<lparr>local_shard_count = 1, remote_shard_count = 2\<rparr>" "Some ''user_id''"
         "''/data/''" example_settings]
       write_throws_iff [OF i, of id example_fs "''Distributed''" "''hits_all''" "()" "''db''"
         "''hits''" "\<lparr>local_shard_count = 1, remote_shard_count = 2\<rparr>" None
         "''/data/''" example_settings] i
  show ?thesis by simp
qed

section \<open>alter\<close>

lemma check_primary_key_Some:
  "\<exists>param \<in> set params. command_type param = MODIFY_PRIMARY_KEY \<Longrightarrow>
   check_primary_key eng params =
     Some (Exception (''Storage engine '' @ eng @ '' doesn't support primary key.'') NOT_IMPLEMENTED)"
  by (induction params) auto

lemma check_primary_key_None:
  "\<forall>param \<in> set params. command_type param \<noteq> MODIFY_PRIMARY_KEY \<Longrightarrow>
   check_primary_key eng params = None"
  by (induction params) auto

text \<open>
  Claim C9. When the command list holds a \<open>MODIFY_PRIMARY_KEY\<close>, \<open>alter\<close> throws
  \<open>NOT_IMPLEMENTED\<close> with nothing done: no lock taken, no command applied, no call of
  \<open>alterTable\<close>, the table as it was. When it holds none, the structure lock is taken,
  the commands are applied to the schema under it, and then, still under it,
  \<open>alterTable\<close> is called with the new schema (unless applying threw, which ends the
  call with that exception); the lock is released last.
\<close>

theorem alter_rejects_primary_key:
  "((\<exists>param \<in> set params. command_type param = MODIFY_PRIMARY_KEY) \<longrightarrow>
      alter apply alterTable params database_name table_name st =
        (st, [],
         Some (Exception (''Storage engine '' @ engine st @ '' doesn't support primary key.'')
                 NOT_IMPLEMENTED)))
   \<and> ((\<forall>param \<in> set params'. command_type param \<noteq> MODIFY_PRIMARY_KEY) \<longrightarrow>
      (\<exists>columns' r.
         apply params' (columns st) = (columns', r) \<and>
         alter apply alterTable params' database_name table_name st =
           (st\<lparr>columns := columns'\<rparr>,
            [LockStructureForAlter, ApplyCommands columns' r] @
            (case r of
               None \<Rightarrow> [AlterTable database_name table_name columns'
                          (alterTable database_name table_name columns')]
             | Some e \<Rightarrow> []) @
            [UnlockStructure],
            (case r of
               None \<Rightarrow> alterTable database_name table_name columns'
             | Some e \<Rightarrow> Some e))))"
proof (intro conjI impI)
  assume "\<exists>param \<in> set params. command_type param = MODIFY_PRIMARY_KEY"
  then show "alter apply alterTable params database_name table_name st =
        (st, [],
         Some (Exception (''Storage engine '' @ engine st @ '' doesn't support primary key.'')
                 NOT_IMPLEMENTED))"
    by (simp add: alter_def check_primary_key_Some)
next
  assume "\<forall>param \<in> set params'. command_type param \<noteq> MODIFY_PRIMARY_KEY"
  then have none: "check_primary_key (engine st) params' = None"
    by (rule check_primary_key_None)
  obtain columns' r where a: "apply params' (columns st) = (columns', r)"
    by (cases "apply params' (columns st)")
  show "\<exists>columns' r.
         apply params' (columns st) = (columns', r) \<and>
         alter apply alterTable params' database_name table_name st =
           (st\<lparr>columns := columns'\<rparr>,
            [LockStructureForAlter, ApplyCommands columns' r] @
            (case r of
               None \<Rightarrow> [AlterTable database_name table_name columns'
                          (alterTable database_name table_name columns')]
             | Some e \<Rightarrow> []) @
            [UnlockStructure],
            (case r of
               None \<Rightarrow> alterTable database_name table_name columns'
             | Some e \<Rightarrow> Some e))"
    using none a by (cases r) (simp_all add: alter_def)
qed

theorem alter_rejects_primary_key_witness:
  "(\<exists>param \<in> set [\<lparr>command_type = ADD_COLUMN, command_payload = ''url''\<rparr>,
                    \<lparr>command_type = MODIFY_PRIMARY_KEY, command_payload = ''id''\<rparr>].
       command_type param = MODIFY_PRIMARY_KEY)
   \<and> alter example_apply example_alterTable
        [\<lparr>command_type = ADD_COLUMN, command_payload = ''url''\<rparr>,
         \<lparr>command_type = MODIFY_PRIMARY_KEY, command_payload = ''id''\<rparr>]
        ''default'' ''hits_all'' example_storage =
      (example_storage, [],
       Some (Exception ''Storage engine Distributed doesn't support primary key.'' NOT_IMPLEMENTED))
   \<and> alter example_apply example_alterTable
        [\<lparr>command_type = ADD_COLUMN, command_payload = ''url''\<rparr>]
        ''default'' ''hits_all'' example_storage =
      (example_storage\<lparr>columns := [''id'', ''url'']\<rparr>,
       [LockStructureForAlter, ApplyCommands [''id'', ''url''] None,
        AlterTable ''default'' ''hits_all'' [''id'', ''url''] None, UnlockStructure],
       None)"
  using alter_rejects_primary_key [of
      "[\<lparr>command_type = ADD_COLUMN, command_payload = ''url''\<rparr>,
        \<lparr>command_type = MODIFY_PRIMARY_KEY, command_payload = ''id''\<rparr>]"
      example_apply example_alterTable "''default''" "''hits_all''" example_storage
      "[\<lparr>command_type = ADD_COLUMN, command_payload = ''url''\<rparr>]"]
  by (simp add: example_apply_def example_alterTable_def example_storage_def)

section \<open>Resharding: the checks before the coordinator\<close>

text \<open>
  Claim C5, as stated, at a call that supplies a coordination id while the worker is
  not started: the call fails with \<open>RESHARDING_NO_WORKER\<close>, not with
  \<open>RESHARDING_INVALID_PARAMETERS\<close>.
\<close>

theorem coordination_id_without_worker_counterexample:
  "\<not> isNull (Literal ''coordinator-7'')
   \<and> reshardPartitions (example_env False steady_worker failing_read) example_storage
        Null Null [(''/shards/1'', 1)] None False (Literal ''coordinator-7'') example_settings =
      ([], Some (Exception ''Resharding background thread is not running'' RESHARDING_NO_WORKER))"
  by (simp add: reshardPartitions_def example_env_def)

text \<open>
  Claim C5, amended. If the worker is not started, \<open>reshardPartitions\<close> fails with
  \<open>RESHARDING_NO_WORKER\<close>; if it is started and the caller supplies a coordination id,
  it fails with \<open>RESHARDING_INVALID_PARAMETERS\<close>. In both cases the trace is empty: no
  method of the worker was called, \<open>createCoordinator\<close> included.
\<close>

theorem reshardPartitions_preconditions:
  "(\<not> isStarted env \<longrightarrow>
      reshardPartitions env st first_partition last_partition paths key do_copy coordinator s =
        ([], Some (Exception ''Resharding background thread is not running'' RESHARDING_NO_WORKER)))
   \<and> (isStarted env' \<and> \<not> isNull coordinator' \<longrightarrow>
      reshardPartitions env' st first_partition last_partition paths key do_copy coordinator' s =
        ([], Some (Exception
               ''Use of COORDINATE WITH is forbidden in ALTER TABLE ... RESHARD queries for distributed tables''
               RESHARDING_INVALID_PARAMETERS)))"
  by (simp add: reshardPartitions_def)

theorem reshardPartitions_preconditions_witness:
  "\<not> isStarted (example_env False steady_worker failing_read)
   \<and> reshardPartitions (example_env False steady_worker failing_read) example_storage
        Null Null [(''/shards/1'', 1)] None False Null example_settings =
      ([], Some (Exception ''Resharding background thread is not running'' RESHARDING_NO_WORKER))
   \<and> isStarted (example_env True steady_worker failing_read)
   \<and> \<not> isNull (Literal ''coordinator-7'')
   \<and> reshardPartitions (example_env True steady_worker failing_read) example_storage
        Null Null [(''/shards/1'', 1)] None False (Literal ''coordinator-7'') example_settings =
      ([], Some (Exception
             ''Use of COORDINATE WITH is forbidden in ALTER TABLE ... RESHARD queries for distributed tables''
             RESHARDING_INVALID_PARAMETERS))"
  using reshardPartitions_preconditions
          [of "example_env False steady_worker failing_read" example_storage
              Null Null "[(''/shards/1'', 1)]" None False Null example_settings
              "example_env True steady_worker failing_read" "Literal ''coordinator-7''"]
  by (simp add: example_env_def)

section \<open>Resharding: how often the status is set\<close>

lemma setStatus_invocations_append [simp]:
  "setStatus_invocations (tr @ es) = setStatus_invocations tr + setStatus_invocations es"
  by (simp add: setStatus_invocations_def)

lemma setStatus_returns_append [simp]:
  "setStatus_returns (tr @ es) = setStatus_returns tr + setStatus_returns es"
  by (simp add: setStatus_returns_def)

lemma setStatus_invocations_Nil [simp]: "setStatus_invocations [] = 0"
  by (simp add: setStatus_invocations_def)

lemma setStatus_invocations_Cons [simp]:
  "setStatus_invocations (e # es) = (if setStatus_invoked e then 1 else 0) + setStatus_invocations es"
  by (simp add: setStatus_invocations_def)

lemma setStatus_returns_Nil [simp]: "setStatus_returns [] = 0"
  by (simp add: setStatus_returns_def)

lemma setStatus_returns_Cons [simp]:
  "setStatus_returns (e # es) =
     (if setStatus_invoked e \<and> returned e then 1 else 0) + setStatus_returns es"
  by (simp add: setStatus_returns_def)

lemma setStatus_returns_le: "setStatus_returns tr \<le> setStatus_invocations tr"
  by (induction tr) simp_all

lemma exception_callback_counted:
  assumes "setStatus_invocations tr = 0"
  shows "counted (exception_callback w coordinator_id (tr, False))"
proof -
  from assms have "setStatus_returns tr = 0"
    using setStatus_returns_le [of tr] by simp
  with assms show ?thesis
    by (cases "w tr (SetStatus coordinator_id STATUS_ERROR [])")
       (simp_all add: exception_callback_def call_def counted_def)
qed

lemma drain_counted:
  assumes "setStatus_invocations tr = 0"
  shows "counted (fst (drain w coordinator_id script (tr, False)))"
proof (induction script)
  case (Block script)
  then show ?case by simp
next
  case (EndOfData cancelled suffix)
  from assms have "setStatus_returns tr = 0"
    using setStatus_returns_le [of tr] by simp
  with assms show ?case by (simp add: counted_def)
next
  case Cancelled
  from assms have "setStatus_returns tr = 0"
    using setStatus_returns_le [of tr] by simp
  with assms show ?case by (simp add: counted_def)
next
  case (ReadThrows e)
  from assms show ?case by (simp add: exception_callback_counted)
qed

lemma try_block_counted:
  assumes "setStatus_invocations tr0 = 0"
  shows "counted (fst (try_block env st first_partition last_partition paths key do_copy s
                         coordinator_id tr0))"
proof -
  let ?q = "make_alter_query st first_partition last_partition paths key do_copy coordinator_id"
  let ?c = "RegisterQuery coordinator_id (queryToString env ?q)"
  let ?tr1 = "tr0 @ [Call ?c (resharding_worker env tr0 ?c)]"
  from assms have inv1: "setStatus_invocations ?tr1 = 0"
    by simp
  then have ret1: "setStatus_returns ?tr1 = 0"
    using setStatus_returns_le [of ?tr1] by simp
  from inv1 ret1 have base: "counted (?tr1, False)"
    by (simp add: counted_def)
  from inv1 have loop: "\<And>script. counted (fst (drain (resharding_worker env) coordinator_id script (?tr1, False)))"
    by (rule drain_counted)
  show ?thesis
  proof (cases "resharding_worker env tr0 ?c")
    case (Inl e)
    with base show ?thesis
      by (simp add: try_block_def Let_def call_def)
  next
    case registered: (Inr u)
    show ?thesis
    proof (cases "execute_alter env
                      \<lparr>constructor = AlterQueryConstructor,
                       query_cluster = cluster st,
                       query_ast = ?q,
                       query_settings = s,
                       enable_shard_multiplexing = False\<rparr>")
      case (Inl e)
      with registered base show ?thesis
        by (simp add: try_block_def Let_def call_def)
    next
      case executed: (Inr stream)
      show ?thesis
      proof (cases "readPrefix stream")
        case None
        with registered executed loop [of "reads stream"] show ?thesis
          by (simp add: try_block_def Let_def call_def)
      next
        case (Some e)
        with registered executed base show ?thesis
          by (simp add: try_block_def Let_def call_def)
      qed
    qed
  qed
qed

lemma handle_exception_counts:
  "setStatus_invocations (fst (handle_exception w coordinator_id msg (tr, flag))) =
     setStatus_invocations tr + (if flag then 0 else 1)
   \<and> setStatus_returns (fst (handle_exception w coordinator_id msg (tr, flag))) \<le>
     setStatus_returns tr + (if flag then 0 else 1)"
  by (simp add: handle_exception_def call_def split: sum.splits)

lemma no_return_filter:
  "setStatus_returns tr = 0 \<Longrightarrow> e \<in> set (filter setStatus_invoked tr) \<Longrightarrow> \<not> returned e"
  by (induction tr) (auto split: if_splits)

lemma handle_exception_setStatus_events:
  "filter setStatus_invoked (fst (handle_exception w coordinator_id msg (tr, flag))) =
     filter setStatus_invoked tr @
     (if flag then []
      else [Call (SetStatus coordinator_id STATUS_ERROR msg)
              (w tr (SetStatus coordinator_id STATUS_ERROR msg))])"
  by (simp add: handle_exception_def call_def split: sum.splits)

lemma first_invocation_threw:
  assumes "setStatus_returns tr = 0" and "setStatus_invocations tr = 1"
  shows "\<not> returned (hd (filter setStatus_invoked tr @ es))"
proof -
  from assms(2) obtain e where e: "filter setStatus_invoked tr = [e]"
    by (auto simp add: setStatus_invocations_def length_Suc_conv)
  then have "e \<in> set (filter setStatus_invoked tr)" by simp
  with assms(1) have "\<not> returned e" by (rule no_return_filter)
  with e show ?thesis by simp
qed

lemmas run_defs =
  reshardPartitions_def try_block_def handle_exception_def exception_callback_def call_def
  make_alter_query_def example_env_def example_storage_def shard_failure_def
  failing_read_def failing_prefix_def steady_worker_def

text \<open>
  Claim C1, as stated, at a run where the second read of the union throws and the
  worker's first \<open>setStatus\<close> throws: the callback calls \<open>setStatus\<close>, which throws, so
  the flag stays unset, and the cleanup calls \<open>setStatus\<close> again. Two invocations.
\<close>

theorem setStatus_error_twice_counterexample:
  "fst (reshardPartitions (example_env True failing_status_worker failing_read) example_storage
          Null Null [(''/shards/1'', 1)] None False Null example_settings) =
     [Call (CreateCoordinator \<lparr>local_shard_count = 1, remote_shard_count = 2\<rparr>) (Inr ''coordinator-1''),
      Call (RegisterQuery ''coordinator-1'' ''ALTER TABLE db.hits RESHARD'') (Inr []),
      Call (SetStatus ''coordinator-1'' STATUS_ERROR []) (Inl (StdException ''connection loss'')),
      TryLogCurrentException (StdException ''connection loss''),
      Call (SetStatus ''coordinator-1'' STATUS_ERROR ''Timeout exceeded while reading from shard'')
        (Inr []),
      Call (DumpCoordinatorState ''coordinator-1'') (Inr ''state of coordinator-1''),
      Call (DeleteCoordinator ''coordinator-1'') (Inr []),
      LOG_ERROR ''state of coordinator-1'']
   \<and> \<not> setStatus_invocations
         (fst (reshardPartitions (example_env True failing_status_worker failing_read) example_storage
                 Null Null [(''/shards/1'', 1)] None False Null example_settings)) \<le> 1"
  by (simp add: run_defs failing_status_worker_def)

text \<open>
  Claim C1, amended. In every run of \<open>reshardPartitions\<close>, \<open>setStatus\<close> with
  \<open>STATUS_ERROR\<close> returns at most once and is invoked at most twice; when it is invoked
  twice, the first invocation threw. When the call, past the creation of the
  coordinator, ends with an exception, \<open>setStatus\<close> was invoked at least once.
\<close>

theorem setStatus_error_returns_at_most_once:
  "setStatus_returns
     (fst (reshardPartitions env st first_partition last_partition paths key do_copy coordinator s)) \<le> 1
   \<and> setStatus_invocations
     (fst (reshardPartitions env st first_partition last_partition paths key do_copy coordinator s)) \<le> 2
   \<and> (setStatus_invocations
        (fst (reshardPartitions env st first_partition last_partition paths key do_copy coordinator s)) = 2
      \<longrightarrow> \<not> returned (hd (filter setStatus_invoked
        (fst (reshardPartitions env st first_partition last_partition paths key do_copy coordinator s)))))
   \<and> (isStarted env \<and> isNull coordinator \<and>
        resharding_worker env [] (CreateCoordinator (cluster st)) = Inr coordinator_id \<and>
        snd (reshardPartitions env st first_partition last_partition paths key do_copy coordinator s)
          = Some ex \<longrightarrow>
      1 \<le> setStatus_invocations
        (fst (reshardPartitions env st first_partition last_partition paths key do_copy coordinator s)))"
proof -
  let ?R = "reshardPartitions env st first_partition last_partition paths key do_copy coordinator s"
  let ?w = "resharding_worker env"
  let ?c0 = "CreateCoordinator (cluster st)"
  let ?tr0 = "[Call ?c0 (?w [] ?c0)]"
  consider (stopped) "\<not> isStarted env"
    | (coordinated) "isStarted env" "\<not> isNull coordinator"
    | (refused) e where "isStarted env" "isNull coordinator" "?w [] ?c0 = Inl e"
    | (created) cid where "isStarted env" "isNull coordinator" "?w [] ?c0 = Inr cid"
    by (cases "?w [] ?c0") auto
  then show ?thesis
  proof cases
    case stopped
    then show ?thesis by (simp add: reshardPartitions_def)
  next
    case coordinated
    then show ?thesis by (simp add: reshardPartitions_def)
  next
    case refused
    then show ?thesis by (simp add: reshardPartitions_def call_def)
  next
    case created
    let ?T = "try_block env st first_partition last_partition paths key do_copy s cid ?tr0"
    have "setStatus_invocations ?tr0 = 0" by simp
    then have c: "counted (fst ?T)" by (rule try_block_counted)
    obtain tr1 flag r where T: "?T = ((tr1, flag), r)"
      by (cases ?T) auto
    with c have c1: "counted (tr1, flag)" by simp
    show ?thesis
    proof (cases r)
      case None
      with created T have "fst ?R = tr1" "snd ?R = None"
        by (simp_all add: reshardPartitions_def call_def)
      with c1 show ?thesis by (auto simp add: counted_def split: if_splits)
    next
      case (Some ex')
      let ?H = "handle_exception ?w cid (catch_message ex') (tr1, flag)"
      let ?new = "Call (SetStatus cid STATUS_ERROR (catch_message ex'))
                    (?w tr1 (SetStatus cid STATUS_ERROR (catch_message ex')))"
      from created T Some have R: "fst ?R = fst ?H @ [LOG_ERROR (snd ?H)]"
        by (simp add: reshardPartitions_def call_def split: prod.splits)
      note counts = handle_exception_counts [of ?w cid "catch_message ex'" tr1 flag]
      from R counts c1 have bounds:
        "setStatus_returns (fst ?R) \<le> 1" "setStatus_invocations (fst ?R) \<le> 2"
        "1 \<le> setStatus_invocations (fst ?R)"
        by (auto simp add: counted_def split: if_splits)
      have first: "\<not> returned (hd (filter setStatus_invoked (fst ?R)))"
        if two: "setStatus_invocations (fst ?R) = 2"
      proof (cases flag)
        case True
        with R counts c1 two show ?thesis by (simp add: counted_def)
      next
        case False
        with R counts c1 two have "setStatus_returns tr1 = 0" "setStatus_invocations tr1 = 1"
          by (simp_all add: counted_def)
        then have "\<not> returned (hd (filter setStatus_invoked tr1 @ [?new]))"
          by (rule first_invocation_threw)
        with False R show ?thesis
          by (simp add: handle_exception_setStatus_events)
      qed
      from bounds first show ?thesis by blast
    qed
  qed
qed

theorem setStatus_error_returns_at_most_once_witness:
  "isStarted (example_env True failing_status_worker failing_read) \<and> isNull Null
   \<and> resharding_worker (example_env True failing_status_worker failing_read) []
        (CreateCoordinator (cluster example_storage)) = Inr ''coordinator-1''
   \<and> snd (reshardPartitions (example_env True failing_status_worker failing_read) example_storage
             Null Null [(''/shards/1'', 1)] None False Null example_settings) = Some shard_failure
   \<and> setStatus_invocations
        (fst (reshardPartitions (example_env True failing_status_worker failing_read) example_storage
                Null Null [(''/shards/1'', 1)] None False Null example_settings)) = 2
   \<and> setStatus_returns
        (fst (reshardPartitions (example_env True failing_status_worker failing_read) example_storage
                Null Null [(''/shards/1'', 1)] None False Null example_settings)) = 1
   \<and> \<not> returned (hd (filter setStatus_invoked
        (fst (reshardPartitions (example_env True failing_status_worker failing_read) example_storage
                Null Null [(''/shards/1'', 1)] None False Null example_settings))))
   \<and> setStatus_invocations
        (fst (reshardPartitions (example_env True steady_worker failing_read) example_storage
                Null Null [(''/shards/1'', 1)] None False Null example_settings)) = 1
   \<and> setStatus_returns
        (fst (reshardPartitions (example_env True steady_worker failing_read) example_storage
                Null Null [(''/shards/1'', 1)] None False Null example_settings)) = 1"
  using setStatus_error_returns_at_most_once
          [of "example_env True failing_status_worker failing_read" example_storage
              Null Null "[(''/shards/1'', 1)]" None False Null example_settings
              "''coordinator-1''" shard_failure]
        setStatus_error_returns_at_most_once
          [of "example_env True steady_worker failing_read" example_storage
              Null Null "[(''/shards/1'', 1)]" None False Null example_settings
              "''coordinator-1''" shard_failure]
  by (simp add: run_defs failing_status_worker_def)

section \<open>Resharding: cleanup and the exception the caller sees\<close>

lemma handle_exception_best_effort:
  "handle_exception w coordinator_id msg (tr, flag) =
     (best_effort w (cleanup_calls flag coordinator_id msg) tr,
      dumped (drop (length tr) (best_effort w (cleanup_calls flag coordinator_id msg) tr)))"
proof (cases flag)
  case True
  then show ?thesis
    by (simp add: handle_exception_def cleanup_calls_def call_def split: sum.splits)
next
  case False
  then show ?thesis
    by (simp add: handle_exception_def cleanup_calls_def call_def split: sum.splits)
qed

text \<open>
  Claim C4, as stated, at a run where a read of the union throws and the worker's
  \<open>dumpCoordinatorState\<close> throws: the caller sees the exception of the read, but
  \<open>deleteCoordinator\<close> is never called and the dump that is logged is empty.
\<close>

theorem cleanup_skips_delete_counterexample:
  "reshardPartitions (example_env True failing_dump_worker failing_read) example_storage
     Null Null [(''/shards/1'', 1)] None False Null example_settings =
     ([Call (CreateCoordinator \<lparr>local_shard_count = 1, remote_shard_count = 2\<rparr>) (Inr ''coordinator-1''),
       Call (RegisterQuery ''coordinator-1'' ''ALTER TABLE db.hits RESHARD'') (Inr []),
       Call (SetStatus ''coordinator-1'' STATUS_ERROR []) (Inr []),
       Call (DumpCoordinatorState ''coordinator-1'') (Inl (StdException ''connection loss'')),
       TryLogCurrentException (StdException ''connection loss''),
       LOG_ERROR []],
      Some shard_failure)
   \<and> DeleteCoordinator ''coordinator-1'' \<notin>
       set (calls (fst (reshardPartitions (example_env True failing_dump_worker failing_read)
                          example_storage Null Null [(''/shards/1'', 1)] None False Null
                          example_settings)))"
  by (simp add: run_defs failing_dump_worker_def)

text \<open>
  Claim C4, amended. When the \<open>try\<close> block of \<open>reshardPartitions\<close> ends with an exception,
  the cleanup calls are made in order, \<open>setStatus\<close> with \<open>STATUS_ERROR\<close> and the message
  of the exception (unless the flag is set), \<open>dumpCoordinatorState\<close>, \<open>deleteCoordinator\<close>,
  up to the first that throws; the exception of that one is logged and the calls after
  it are not made. Then the dump is logged (empty unless \<open>dumpCoordinatorState\<close>
  returned), and the exception of the \<open>try\<close> block, unchanged, is what the caller gets.
\<close>

theorem reshardPartitions_cleanup_and_rethrow:
  assumes "isStarted env" and "isNull coordinator"
    and "resharding_worker env [] (CreateCoordinator (cluster st)) = Inr coordinator_id"
    and "try_block env st first_partition last_partition paths key do_copy s coordinator_id
           [Call (CreateCoordinator (cluster st)) (Inr coordinator_id)]
         = ((tr1, has_notified_error), Some ex)"
  shows "reshardPartitions env st first_partition last_partition paths key do_copy coordinator s =
     (best_effort (resharding_worker env)
        (cleanup_calls has_notified_error coordinator_id (catch_message ex)) tr1 @
      [LOG_ERROR (dumped (drop (length tr1)
         (best_effort (resharding_worker env)
            (cleanup_calls has_notified_error coordinator_id (catch_message ex)) tr1)))],
      Some ex)"
  using assms
  by (simp add: reshardPartitions_def call_def handle_exception_best_effort)

theorem reshardPartitions_cleanup_and_rethrow_witness:
  "isStarted (example_env True steady_worker failing_prefix) \<and> isNull Null
   \<and> resharding_worker (example_env True steady_worker failing_prefix) []
        (CreateCoordinator (cluster example_storage)) = Inr ''coordinator-1''
   \<and> try_block (example_env True steady_worker failing_prefix) example_storage
        Null Null [(''/shards/1'', 1)] None False example_settings ''coordinator-1''
        [Call (CreateCoordinator (cluster example_storage)) (Inr ''coordinator-1'')]
      = (([Call (CreateCoordinator (cluster example_storage)) (Inr ''coordinator-1''),
           Call (RegisterQuery ''coordinator-1'' ''ALTER TABLE db.hits RESHARD'') (Inr [])],
          False), Some shard_failure)
   \<and> reshardPartitions (example_env True steady_worker failing_prefix) example_storage
        Null Null [(''/shards/1'', 1)] None False Null example_settings =
      ([Call (CreateCoordinator (cluster example_storage)) (Inr ''coordinator-1''),
        Call (RegisterQuery ''coordinator-1'' ''ALTER TABLE db.hits RESHARD'') (Inr []),
        Call (SetStatus ''coordinator-1'' STATUS_ERROR ''Timeout exceeded while reading from shard'')
          (Inr []),
        Call (DumpCoordinatorState ''coordinator-1'') (Inr ''state of coordinator-1''),
        Call (DeleteCoordinator ''coordinator-1'') (Inr []),
        LOG_ERROR ''state of coordinator-1''],
       Some shard_failure)"
proof -
  let ?env = "example_env True steady_worker failing_prefix"
  have a: "isStarted ?env" by (simp add: example_env_def)
  have b: "isNull Null" by simp
  have c: "resharding_worker ?env [] (CreateCoordinator (cluster example_storage)) = Inr ''coordinator-1''"
    by (simp add: example_env_def steady_worker_def)
  have d: "try_block ?env example_storage
        Null Null [(''/shards/1'', 1)] None False example_settings ''coordinator-1''
        [Call (CreateCoordinator (cluster example_storage)) (Inr ''coordinator-1'')]
      = (([Call (CreateCoordinator (cluster example_storage)) (Inr ''coordinator-1''),
           Call (RegisterQuery ''coordinator-1'' ''ALTER TABLE db.hits RESHARD'') (Inr [])],
          False), Some shard_failure)"
    by (simp add: run_defs)
  from reshardPartitions_cleanup_and_rethrow [OF a b c d] a b c d
  show ?thesis
    by (simp add: cleanup_calls_def steady_worker_def example_env_def shard_failure_def)
qed

end
